theory Spec2Isabelle
  imports Complex_Main "HOL-Library.Word"
begin

section \<open>Data model\<close>

text \<open>
  The scheduler of the kernel lives in three translation units: the process table and the
  thread operations (\<^verbatim>\<open>proc.c\<close>) and the MLFQ/stride scheduler, of which the sources hold
  two revisions. The revision embedded here is the one \<^verbatim>\<open>proc.c\<close> is written against: it
  calls \<^verbatim>\<open>mlfq_init(&mlfq)\<close> with one argument and schedules threads
  (\<^verbatim>\<open>p->threads[...]\<close>), which only the thread-aware revision
  (\<^verbatim>\<open>stride_next(this, tidx)\<close>, \<^verbatim>\<open>mlfq_update(this, p, ctime)\<close>) supports.

  Conventions of the embedding.
  \<^item> A \<^verbatim>\<open>struct proc*\<close> is \<open>Null\<close> (0), \<open>MLFQ_PROC\<close> (the sentinel
    \<^verbatim>\<open>(struct proc*)-1\<close>) or \<open>Ptr i\<close>, the address of \<^verbatim>\<open>ptable.proc[i]\<close>.
  \<^item> C arrays are lists; an array of \<^verbatim>\<open>NPROC\<close> (\<^verbatim>\<open>NTHREAD\<close>) elements is a list of
    that length, and a loop over the whole array is a recursion over the list.
  \<^item> C \<^verbatim>\<open>int\<close> values (tickets, levels, pids) are HOL integers. The tick counters are
    \<^verbatim>\<open>uint\<close> and are 32-bit words, whose subtraction wraps.
  \<^item> The \<^verbatim>\<open>float\<close> pass values are real numbers: comparison and copying of floats
    that are not NaN agree with the reals; additions and divisions are taken without
    rounding.
  \<^item> The header that declares the constants is not among the sources, so
    \<^verbatim>\<open>MAXTICKET\<close>, \<^verbatim>\<open>MAXSTRIDE\<close>, \<^verbatim>\<open>MAXPASS\<close>, \<^verbatim>\<open>SCALEPASS\<close> are parameters
    of the functions that use them.
\<close>

datatype procstate = UNUSED | EMBRYO | SLEEPING | RUNNABLE | RUNNING | ZOMBIE

datatype pref = Null | MLFQ_PROC | Ptr nat

text \<open>What a modelled function yields instead of a result: a kernel \<^verbatim>\<open>panic\<close> with its
  message, or \<open>Undefined\<close> where the C code dereferences a pointer that is not a process
  (null or the sentinel), reads outside an array, or divides a float by zero.\<close>

datatype abort = Panic string | Undefined

datatype mlfq_ret = MLFQ_NEXT | MLFQ_KEEP

datatype mlfq_status = MLFQ_SUCCESS | MLFQ_FULL_QUEUE

record thread =
  tstate :: procstate
  tid :: int
  kstack :: nat
  chan :: nat
  retval :: nat

record proc =
  state :: procstate
  pid :: int
  killed :: int
  tidx :: int
  parent :: pref
  pgdir :: nat
  sz :: nat
  threads :: "thread list"
  kstacks :: "nat list"
  ustacks :: "nat list"
  mlfq_level :: int
  mlfq_index :: nat
  mlfq_elapsed :: "32 word"
  mlfq_start :: "32 word"

record stride =
  quantum :: int
  total :: int
  pass :: "real list"
  ticket :: "int list"
  queue :: "pref list"

section \<open>The stride meta-scheduler\<close>



text \<open>\<^verbatim>\<open>stride_init\<close>: slot 0 is the MLFQ with all tickets, every other slot is empty.\<close>

definition stride_init :: "int \<Rightarrow> nat \<Rightarrow> stride" where
  "stride_init MAXTICKET NPROC =
     \<lparr> quantum = 5, total = 0,
       pass = 0 # replicate (NPROC - 1) (- 1),
       ticket = MAXTICKET # replicate (NPROC - 1) 0,
       queue = MLFQ_PROC # replicate (NPROC - 1) Null \<rparr>"

text \<open>The search \<^verbatim>\<open>for (iter = queue; iter != &queue[NPROC]; ++iter) if (*iter == 0) goto found\<close>,
  shared by \<^verbatim>\<open>stride_append\<close> and \<^verbatim>\<open>mlfq_append\<close>: the index of the first empty entry.\<close>

fun find_empty :: "pref list \<Rightarrow> nat \<Rightarrow> nat option" where
  "find_empty [] i = None"
| "find_empty (x # xs) i = (if x = Null then Some i else find_empty xs (Suc i))"

text \<open>The loop of \<^verbatim>\<open>stride_append\<close> that lowers \<^verbatim>\<open>minpass\<close> over \<^verbatim>\<open>pass[1..NPROC-1]\<close>.\<close>

fun min_pass :: "real \<Rightarrow> real list \<Rightarrow> real" where
  "min_pass minpass [] = minpass"
| "min_pass minpass (x # xs) =
     min_pass (if x \<noteq> - 1 \<and> minpass > x then x else minpass) xs"

text \<open>\<^verbatim>\<open>stride_append\<close>: \<open>None\<close> is the return value 0 (nothing was written), \<open>Some\<close> the
  return value 1 with the updated scheduler and process table.\<close>

definition stride_append ::
  "int \<Rightarrow> stride \<Rightarrow> proc list \<Rightarrow> nat \<Rightarrow> int \<Rightarrow> (stride \<times> proc list) option" where
  "stride_append MAXSTRIDE this ps p usage =
     (if total this + usage > MAXSTRIDE \<or> usage \<le> 0 then None
      else case find_empty (queue this) 0 of
        None \<Rightarrow> None
      | Some idx \<Rightarrow>
          let ps' = ps[p := (ps ! p)\<lparr>mlfq_level := - 1, mlfq_index := idx\<rparr>];
              queue' = (queue this)[idx := Ptr p];
              total' = total this + usage;
              ticket' = ((ticket this)[0 := ticket this ! 0 - usage])[idx := usage];
              minpass = min_pass (pass this ! 0) (tl (pass this))
          in Some (this\<lparr>total := total', pass := (pass this)[idx := minpass],
                        ticket := ticket', queue := queue'\<rparr>, ps'))"

text \<open>\<^verbatim>\<open>stride_delete\<close>.\<close>

definition stride_delete :: "stride \<Rightarrow> proc list \<Rightarrow> nat \<Rightarrow> stride" where
  "stride_delete this ps p =
     (let idx = mlfq_index (ps ! p);
          usage = ticket this ! idx;
          ticket' = ((ticket this)[0 := ticket this ! 0 + usage])[idx := 0]
      in this\<lparr>total := total this - usage, pass := (pass this)[idx := - 1],
               ticket := ticket', queue := (queue this)[idx := Null]\<rparr>)"

text \<open>\<^verbatim>\<open>stride_update\<close>: the serviced slot is 0 for \<^verbatim>\<open>MLFQ_PROC\<close> and \<^verbatim>\<open>p->mlfq.index\<close>
  otherwise; its pass grows by \<^verbatim>\<open>(float)MAXTICKET / ticket[idx]\<close>; when it then exceeds
  \<^verbatim>\<open>MAXPASS\<close>, the loop over the whole pass array subtracts \<^verbatim>\<open>MAXPASS - SCALEPASS\<close> from
  every entry that satisfies \<^verbatim>\<open>*pass > 0\<close>. The return value is always \<^verbatim>\<open>MLFQ_NEXT\<close>.\<close>

definition rescale :: "real \<Rightarrow> real \<Rightarrow> real list \<Rightarrow> real list" where
  "rescale MAXPASS SCALEPASS xs = map (\<lambda>x. if x > 0 then x - (MAXPASS - SCALEPASS) else x) xs"

definition stride_update ::
  "int \<Rightarrow> real \<Rightarrow> real \<Rightarrow> stride \<Rightarrow> proc list \<Rightarrow> pref \<Rightarrow> abort + (mlfq_ret \<times> stride)" where
  "stride_update MAXTICKET MAXPASS SCALEPASS this ps p =
     (case (case p of MLFQ_PROC \<Rightarrow> Some 0 | Ptr i \<Rightarrow> Some (mlfq_index (ps ! i)) | Null \<Rightarrow> None) of
        None \<Rightarrow> Inl Undefined
      | Some idx \<Rightarrow>
          if ticket this ! idx = 0 then Inl Undefined
          else
            let pass1 = (pass this)[idx := pass this ! idx
                           + real_of_int MAXTICKET / real_of_int (ticket this ! idx)];
                pass2 = (if pass1 ! idx > MAXPASS then rescale MAXPASS SCALEPASS pass1
                         else pass1)
            in Inr (MLFQ_NEXT, this\<lparr>pass := pass2\<rparr>))"




section \<open>The MLFQ scheduler\<close>

text \<open>\<^verbatim>\<open>struct mlfq\<close>. The fields \<^verbatim>\<open>quantum\<close> and \<^verbatim>\<open>queue\<close> are \<open>mquantum\<close> and \<open>mqueue\<close>
  here, the names being taken by the stride record. A cursor \<^verbatim>\<open>iterstate[i]\<close>, a pointer
  into \<^verbatim>\<open>queue[i]\<close>, is its offset from \<^verbatim>\<open>queue[i]\<close>.\<close>

record mlfq =
  mquantum :: "32 word list"
  expire :: "32 word list"
  mqueue :: "pref list list"
  iterstate :: "nat list"
  metasched :: stride

text \<open>Modelled from the spec: \<^verbatim>\<open>NMLFQ\<close>, the number of levels, declared in the missing header
  \<^verbatim>\<open>mlfq.h\<close>; the spec gives K = 3, the length of the tables in \<^verbatim>\<open>mlfq_init\<close>.\<close>

definition NMLFQ :: nat where
  "NMLFQ = 3"

definition mlfq_init :: "int \<Rightarrow> nat \<Rightarrow> mlfq" where
  "mlfq_init MAXTICKET NPROC =
     \<lparr> mquantum = [5, 10, 20], expire = [20, 40, 200],
       mqueue = replicate NMLFQ (replicate NPROC Null),
       iterstate = replicate NMLFQ 0,
       metasched = stride_init MAXTICKET NPROC \<rparr>"

definition mlfq_append ::
  "mlfq \<Rightarrow> proc list \<Rightarrow> nat \<Rightarrow> nat \<Rightarrow> mlfq_status \<times> mlfq \<times> proc list" where
  "mlfq_append this ps p level =
     (case find_empty (mqueue this ! level) 0 of
        None \<Rightarrow> (MLFQ_FULL_QUEUE, this, ps)
      | Some j \<Rightarrow>
          (MLFQ_SUCCESS,
           this\<lparr>mqueue := (mqueue this)[level := (mqueue this ! level)[j := Ptr p]]\<rparr>,
           ps[p := (ps ! p)\<lparr>mlfq_level := int level, mlfq_index := j, mlfq_elapsed := 0\<rparr>]))"

definition mlfq_delete :: "mlfq \<Rightarrow> proc list \<Rightarrow> nat \<Rightarrow> mlfq" where
  "mlfq_delete this ps p =
     (if mlfq_level (ps ! p) = - 1
      then this\<lparr>metasched := stride_delete (metasched this) ps p\<rparr>
      else this\<lparr>mqueue := (mqueue this)[nat (mlfq_level (ps ! p)) :=
                    (mqueue this ! nat (mlfq_level (ps ! p)))[mlfq_index (ps ! p) := Null]]\<rparr>)"

text \<open>\<^verbatim>\<open>mlfq_update(this, p, ctime)\<close>, with \<open>p\<close> the index of the process in the table.\<close>

definition mlfq_update ::
  "int \<Rightarrow> real \<Rightarrow> real \<Rightarrow> mlfq \<Rightarrow> proc list \<Rightarrow> nat \<Rightarrow> 32 word
     \<Rightarrow> abort + (mlfq_ret \<times> mlfq \<times> proc list)" where
  "mlfq_update MAXTICKET MAXPASS SCALEPASS this ps p ctime =
     (let level = mlfq_level (ps ! p); index = mlfq_index (ps ! p) in
      if state (ps ! p) = ZOMBIE \<or> killed (ps ! p) \<noteq> 0 then Inr (MLFQ_NEXT, this, ps)
      else if level = - 1 then
        (case stride_update MAXTICKET MAXPASS SCALEPASS (metasched this) ps (Ptr p) of
           Inl e \<Rightarrow> Inl e
         | Inr (r, st) \<Rightarrow> Inr (r, this\<lparr>metasched := st\<rparr>, ps))
      else
        (case stride_update MAXTICKET MAXPASS SCALEPASS (metasched this) ps MLFQ_PROC of
           Inl e \<Rightarrow> Inl e
         | Inr (r, st) \<Rightarrow>
             let this1 = this\<lparr>metasched := st\<rparr> in
             if level + 1 < int NMLFQ \<and> mlfq_elapsed (ps ! p) \<ge> expire this1 ! nat level then
               (case mlfq_append this1 ps p (nat (level + 1)) of
                  (MLFQ_SUCCESS, this2, ps2) \<Rightarrow>
                    Inr (MLFQ_NEXT,
                         this2\<lparr>mqueue := (mqueue this2)[nat level :=
                                  (mqueue this2 ! nat level)[index := Null]]\<rparr>,
                         ps2)
                | (MLFQ_FULL_QUEUE, this2, ps2) \<Rightarrow> Inl (Panic ''mlfq: level elevation failed''))
             else if ctime - mlfq_start (ps ! p) < mquantum this1 ! nat level
               then Inr (MLFQ_KEEP, this1, ps)
               else Inr (MLFQ_NEXT, this1, ps)))"





section \<open>The process table\<close>

text \<open>The globals of \<^verbatim>\<open>proc.c\<close>: \<^verbatim>\<open>ptable.proc\<close>, \<^verbatim>\<open>mlfq\<close>, \<^verbatim>\<open>nextpid\<close>, \<^verbatim>\<open>nexttid\<close>. The
  lock \<^verbatim>\<open>ptable.lock\<close> is not modelled: every function below runs its critical section
  as one step. Trap frames, saved contexts, open files, the working directory and the
  process name belong to other subsystems and are left out of the records.\<close>

record kstate =
  ptable :: "proc list"
  sched :: mlfq
  nextpid :: int
  nexttid :: int

text \<open>Static storage is zero-initialised: every slot starts UNUSED (the first member of
  the enumeration) with null pointers and zero counters. \<^verbatim>\<open>pinit\<close> then runs
  \<^verbatim>\<open>mlfq_init\<close>.\<close>

definition zero_thread :: thread where
  "zero_thread = \<lparr> tstate = UNUSED, tid = 0, kstack = 0, chan = 0, retval = 0 \<rparr>"

definition zero_proc :: "nat \<Rightarrow> proc" where
  "zero_proc NTHREAD =
     \<lparr> state = UNUSED, pid = 0, killed = 0, tidx = 0, parent = Null, pgdir = 0, sz = 0,
       threads = replicate NTHREAD zero_thread,
       kstacks = replicate NTHREAD 0, ustacks = replicate NTHREAD 0,
       mlfq_level = 0, mlfq_index = 0, mlfq_elapsed = 0, mlfq_start = 0 \<rparr>"

definition pinit :: "int \<Rightarrow> nat \<Rightarrow> nat \<Rightarrow> kstate" where
  "pinit MAXTICKET NPROC NTHREAD =
     \<lparr> ptable = replicate NPROC (zero_proc NTHREAD),
       sched = mlfq_init MAXTICKET NPROC, nextpid = 1, nexttid = 1 \<rparr>"

text \<open>\<^verbatim>\<open>allocproc\<close>. The first argument is the address \<^verbatim>\<open>kalloc()\<close> returns, 0 when no
  memory is left. The result is the returned pointer and the new kernel state.\<close>

fun find_unused :: "proc list \<Rightarrow> nat \<Rightarrow> nat option" where
  "find_unused [] i = None"
| "find_unused (p # ps) i = (if state p = UNUSED then Some i else find_unused ps (Suc i))"

definition allocproc :: "nat \<Rightarrow> kstate \<Rightarrow> pref \<times> kstate" where
  "allocproc ka s =
     (case find_unused (ptable s) 0 of
        None \<Rightarrow> (Null, s)
      | Some i \<Rightarrow>
          let p = ptable s ! i;
              t = (threads p ! 0)\<lparr>tstate := EMBRYO, tid := nexttid s\<rparr>;
              p1 = p\<lparr>state := EMBRYO, pid := nextpid s, tidx := 0,
                     threads := (threads p)[0 := t]\<rparr>;
              (r, m1, ps1) = mlfq_append (sched s) ((ptable s)[i := p1]) i 0;
              p2 = (ps1 ! i)\<lparr>kstacks := map (\<lambda>a. 0) (kstacks (ps1 ! i)),
                              ustacks := map (\<lambda>a. 0) (ustacks (ps1 ! i))\<rparr>;
              s1 = s\<lparr>sched := m1, nextpid := nextpid s + 1, nexttid := nexttid s + 1\<rparr>
          in if ka = 0 then
               (Null, s1\<lparr>ptable := ps1[i := p2\<lparr>state := UNUSED,
                  threads := (threads p2)[0 := (threads p2 ! 0)\<lparr>tstate := UNUSED\<rparr>]\<rparr>]\<rparr>)
             else
               (Ptr i, s1\<lparr>ptable := ps1[i := p2\<lparr>kstacks := (kstacks p2)[0 := ka],
                  threads := (threads p2)[0 := (threads p2 ! 0)\<lparr>kstack := ka\<rparr>]\<rparr>]\<rparr>))"

text \<open>\<^verbatim>\<open>fork\<close>. \<open>ka\<close> is the result of \<^verbatim>\<open>kalloc()\<close> inside \<^verbatim>\<open>allocproc\<close>, \<open>cu\<close> the page
  directory \<^verbatim>\<open>copyuvm\<close> returns (0 on failure), \<open>cur\<close> the index of the calling process.\<close>

definition fork :: "nat \<Rightarrow> nat \<Rightarrow> nat \<Rightarrow> kstate \<Rightarrow> int \<times> kstate" where
  "fork ka cu cur s =
     (case allocproc ka s of
        (Ptr n, s1) \<Rightarrow>
          let np = ptable s1 ! n; curproc = ptable s1 ! cur in
          if cu = 0 then
            (- 1, s1\<lparr>ptable := (ptable s1)[n := np\<lparr>state := UNUSED,
                       kstacks := (kstacks np)[0 := 0],
                       threads := (threads np)[0 := (threads np ! 0)\<lparr>kstack := 0,
                                    tstate := UNUSED\<rparr>]\<rparr>]\<rparr>)
          else
            let us = ustacks curproc;
                us1 = us[0 := us ! nat (tidx curproc)];
                us2 = us1[nat (tidx curproc) := us ! 0]
            in (pid np, s1\<lparr>ptable := (ptable s1)[n := np\<lparr>state := RUNNABLE,
                       pgdir := cu, sz := sz curproc, parent := Ptr cur, tidx := 0,
                       ustacks := us2,
                       threads := (threads np)[0 := (threads np ! 0)\<lparr>tstate := RUNNABLE\<rparr>]\<rparr>]\<rparr>)
      | (r, s1) \<Rightarrow> (- 1, s1))"

text \<open>\<^verbatim>\<open>wakeup1\<close> and \<^verbatim>\<open>wakeup\<close>.\<close>

definition wake_thread :: "nat \<Rightarrow> thread \<Rightarrow> thread" where
  "wake_thread ch t = (if tstate t = SLEEPING \<and> chan t = ch then t\<lparr>tstate := RUNNABLE\<rparr> else t)"

definition wakeup1 :: "nat \<Rightarrow> proc list \<Rightarrow> proc list" where
  "wakeup1 ch ps =
     map (\<lambda>p. if state p = RUNNABLE then p\<lparr>threads := map (wake_thread ch) (threads p)\<rparr> else p) ps"

definition wakeup :: "nat \<Rightarrow> kstate \<Rightarrow> kstate" where
  "wakeup ch s = s\<lparr>ptable := wakeup1 ch (ptable s)\<rparr>"






section \<open>Well-formed states\<close>

text \<open>The representation of the stride slots that the code relies on. An empty slot
  \<open>i > 0\<close> holds \<^verbatim>\<open>queue[i] = 0\<close> and \<^verbatim>\<open>pass[i] = -1\<close>, and the code tests the pass value
  where it wants to know whether a slot is occupied. \<open>slots_ok\<close> says that the two agree
  on every slot after slot 0, and that the sentinel stands in no such slot.\<close>

definition slots_ok :: "stride \<Rightarrow> bool" where
  "slots_ok this \<longleftrightarrow>
     queue this \<noteq> [] \<and> pass this \<noteq> [] \<and>
     list_all2 (\<lambda>q x. q \<noteq> MLFQ_PROC \<and> (q = Null \<longleftrightarrow> x = - 1))
       (tl (queue this)) (tl (pass this))"












text \<open>An MLFQ of two process slots with both processes at level 0, and its process
  table: process 0 has used up the allowance of level 0 (20 ticks), process 1 has not.\<close>

definition demo_mlfq :: mlfq where
  "demo_mlfq = \<lparr> mquantum = [5, 10, 20], expire = [20, 40, 200],
                  mqueue = [[Ptr 0, Ptr 1], [Null, Null], [Null, Null]],
                  iterstate = [0, 0, 0],
                  metasched = stride_init 100 2 \<rparr>"

definition mlfq_procs :: "proc list" where
  "mlfq_procs =
     [(zero_proc 2)\<lparr>state := RUNNABLE, pid := 1, mlfq_index := 0, mlfq_elapsed := 20, mlfq_start := 15,
         threads := [zero_thread\<lparr>tstate := RUNNABLE, tid := 1\<rparr>, zero_thread]\<rparr>,
      (zero_proc 2)\<lparr>state := RUNNABLE, pid := 2, mlfq_index := 1, mlfq_elapsed := 7, mlfq_start := 16,
         threads := [zero_thread\<lparr>tstate := SLEEPING, tid := 2, chan := 9\<rparr>,
                     zero_thread\<lparr>tstate := RUNNABLE, tid := 3\<rparr>]\<rparr>]"

text \<open>Kernel states to run the process-table functions on: the two processes of
  \<open>mlfq_procs\<close>; and a table with a caller (process 0), a RUNNABLE process that holds a
  finished thread (tid 5) and a ZOMBIE process (thread tid 6).\<close>

definition demo_kstate :: kstate where
  "demo_kstate = \<lparr> ptable = mlfq_procs, sched = demo_mlfq, nextpid = 3, nexttid = 4 \<rparr>"







section \<open>Admission to the stride scheduler\<close>

lemma find_empty_None_iff: "find_empty xs i = None \<longleftrightarrow> Null \<notin> set xs"
  by (induction xs arbitrary: i) auto


lemma find_empty_Some:
  "find_empty xs i = Some j \<Longrightarrow>
     i \<le> j \<and> j - i < length xs \<and> xs ! (j - i) = Null \<and> (\<forall>k < j - i. xs ! k \<noteq> Null)"
proof (induction xs arbitrary: i)
  case Nil
  then show ?case by simp
next
  case (Cons x xs)
  show ?case
  proof (cases "x = Null")
    case True
    with Cons.prems show ?thesis by simp
  next
    case False
    with Cons.prems have r: "find_empty xs (Suc i) = Some j" by simp
    from Cons.IH [OF r] have a: "Suc i \<le> j" and b: "j - Suc i < length xs"
      and c: "xs ! (j - Suc i) = Null" and d: "\<forall>k < j - Suc i. xs ! k \<noteq> Null" by auto
    from a have e: "j - i = Suc (j - Suc i)" by simp
    have "\<forall>k < j - i. (x # xs) ! k \<noteq> Null"
    proof (intro allI impI)
      fix k assume "k < j - i"
      then show "(x # xs) ! k \<noteq> Null" using False d e by (cases k) auto
    qed
    then show ?thesis using a b c e by simp
  qed
qed

lemma find_empty_0:
  "find_empty xs 0 = Some j \<Longrightarrow> j < length xs \<and> xs ! j = Null \<and> (\<forall>k < j. xs ! k \<noteq> Null)"
  using find_empty_Some [of xs 0 j] by simp



section \<open>The pass value of an admitted process\<close>







section \<open>Conservation of tickets\<close>


lemma tl_upd_0: "tl (xs[0 := v]) = tl xs"
  by (cases xs) auto

lemma tl_upd_pos: "0 < i \<Longrightarrow> tl (xs[i := v]) = (tl xs)[i - 1 := v]"
  by (cases xs; cases i) auto










section \<open>Selection by the stride scheduler\<close>

text \<open>\<open>slots_ok\<close> holds after \<^verbatim>\<open>stride_init\<close> and is kept by \<^verbatim>\<open>stride_delete\<close> of a slot
  \<open>i > 0\<close> and by \<^verbatim>\<open>stride_append\<close> as long as the pass of slot 0 is not the marker -1.\<close>

lemma slots_ok_init: "slots_ok (stride_init MAXTICKET NPROC)"
proof -
  have "list_all2 (\<lambda>q x. q \<noteq> MLFQ_PROC \<and> (q = Null \<longleftrightarrow> x = - (1::real)))
          (replicate n Null) (replicate n (- 1))" for n
    by (induction n) auto
  then show ?thesis by (simp add: slots_ok_def stride_init_def)
qed

lemma min_pass_marker: "m \<noteq> - 1 \<Longrightarrow> min_pass m xs \<noteq> - 1"
  by (induction xs arbitrary: m) auto

lemma slots_ok_append:
  assumes ok: "slots_ok this" and p0: "pass this ! 0 \<noteq> - 1"
    and app: "stride_append MAXSTRIDE this ps p usage = Some (this', ps')"
  shows "slots_ok this'"
proof -
  from app obtain idx where fe: "find_empty (queue this) 0 = Some idx"
    by (auto simp: stride_append_def split: if_splits option.splits)
  from app fe have q': "queue this' = (queue this)[idx := Ptr p]"
    and p': "pass this' = (pass this)[idx := min_pass (pass this ! 0) (tl (pass this))]"
    by (auto simp: stride_append_def Let_def split: if_splits)
  from ok have ne: "queue this \<noteq> []" "pass this \<noteq> []"
    and all: "list_all2 (\<lambda>q x. q \<noteq> MLFQ_PROC \<and> (q = Null \<longleftrightarrow> x = - 1))
       (tl (queue this)) (tl (pass this))"
    by (auto simp: slots_ok_def)
  have mp: "min_pass (pass this ! 0) (tl (pass this)) \<noteq> - 1"
    using p0 by (rule min_pass_marker)
  have "list_all2 (\<lambda>q x. q \<noteq> MLFQ_PROC \<and> (q = Null \<longleftrightarrow> x = - 1))
       (tl (queue this')) (tl (pass this'))"
  proof (cases idx)
    case 0
    with all show ?thesis by (simp add: q' p' tl_upd_0)
  next
    case (Suc k)
    then have "0 < idx" by simp
    then have "tl (queue this') = (tl (queue this))[idx - 1 := Ptr p]"
      "tl (pass this') = (tl (pass this))[idx - 1 := min_pass (pass this ! 0) (tl (pass this))]"
      by (simp_all add: q' p' tl_upd_pos)
    with all mp show ?thesis by (simp add: list_all2_update_cong)
  qed
  with ne show ?thesis by (simp add: slots_ok_def q' p')
qed

lemma slots_ok_delete:
  assumes ok: "slots_ok this" and idx: "0 < mlfq_index (ps ! p)"
  shows "slots_ok (stride_delete this ps p)"
proof -
  from ok have ne: "queue this \<noteq> []" "pass this \<noteq> []"
    and all: "list_all2 (\<lambda>q x. q \<noteq> MLFQ_PROC \<and> (q = Null \<longleftrightarrow> x = - 1))
       (tl (queue this)) (tl (pass this))"
    by (auto simp: slots_ok_def)
  from all have "list_all2 (\<lambda>q x. q \<noteq> MLFQ_PROC \<and> (q = Null \<longleftrightarrow> x = - 1))
       ((tl (queue this))[mlfq_index (ps ! p) - 1 := Null])
       ((tl (pass this))[mlfq_index (ps ! p) - 1 := - 1])"
    by (simp add: list_all2_update_cong)
  with ne idx show ?thesis
    by (simp add: slots_ok_def stride_delete_def Let_def tl_upd_pos)
qed






section \<open>Charging a slot and rescaling\<close>





section \<open>The update after a time slice\<close>

lemma stride_update_mlfq:
  "ticket st ! 0 \<noteq> 0 \<Longrightarrow>
     \<exists>st'. stride_update MAXTICKET MAXPASS SCALEPASS st ps MLFQ_PROC = Inr (MLFQ_NEXT, st')"
  by (simp add: stride_update_def Let_def)

text \<open>
  Claim C2. For a process \<open>p\<close> at MLFQ level \<open>L\<close> that is neither a ZOMBIE nor killed:
  when \<open>elapsed \<ge> expire[L]\<close> and a lower level exists, \<^verbatim>\<open>mlfq_update\<close> moves \<open>p\<close> into
  level \<open>L + 1\<close> (into its first empty entry, clearing the entry at level \<open>L\<close>), resets
  \<open>elapsed\<close> to 0 and reports NEXT; otherwise it reports NEXT when
  \<open>now - start \<ge> q[L]\<close> and KEEP when not, leaving the queues as they are. The move needs
  an empty entry at level \<open>L + 1\<close>, which \<open>level_has_room\<close> below derives for tables whose
  occupied entries are distinct processes; without one the kernel panics.
\<close>

theorem mlfq_update_level:
  assumes p: "state (ps ! p) \<noteq> ZOMBIE" "killed (ps ! p) = 0"
    and lv: "mlfq_level (ps ! p) = int L" "L < NMLFQ"
    and ix: "p < length ps" "L < length (mqueue this)" "mlfq_index (ps ! p) < length (mqueue this ! L)"
    and tk: "ticket (metasched this) ! 0 \<noteq> 0"
  shows "(L + 1 < NMLFQ \<and> mlfq_elapsed (ps ! p) \<ge> expire this ! L
            \<and> L + 1 < length (mqueue this) \<and> Null \<in> set (mqueue this ! (L + 1)) \<longrightarrow>
          (\<exists>this' ps' j.
             mlfq_update MAXTICKET MAXPASS SCALEPASS this ps p ctime = Inr (MLFQ_NEXT, this', ps')
             \<and> find_empty (mqueue this ! (L + 1)) 0 = Some j
             \<and> mqueue this' ! (L + 1) ! j = Ptr p
             \<and> mqueue this' ! L ! mlfq_index (ps ! p) = Null
             \<and> mlfq_level (ps' ! p) = int L + 1 \<and> mlfq_index (ps' ! p) = j
             \<and> mlfq_elapsed (ps' ! p) = 0))
       \<and> (\<not> (L + 1 < NMLFQ \<and> mlfq_elapsed (ps ! p) \<ge> expire this ! L) \<longrightarrow>
          (\<exists>this'.
             mlfq_update MAXTICKET MAXPASS SCALEPASS this ps p ctime
               = Inr (if ctime - mlfq_start (ps ! p) \<ge> mquantum this ! L then MLFQ_NEXT else MLFQ_KEEP,
                      this', ps)
             \<and> mqueue this' = mqueue this))"
proof (intro conjI impI)
  from stride_update_mlfq [OF tk] obtain st where
    st: "stride_update MAXTICKET MAXPASS SCALEPASS (metasched this) ps MLFQ_PROC = Inr (MLFQ_NEXT, st)"
    by blast
  {
    assume a: "L + 1 < NMLFQ \<and> mlfq_elapsed (ps ! p) \<ge> expire this ! L
            \<and> L + 1 < length (mqueue this) \<and> Null \<in> set (mqueue this ! (L + 1))"
    then obtain j where j: "find_empty (mqueue this ! (L + 1)) 0 = Some j"
      using find_empty_None_iff [of "mqueue this ! (L + 1)" 0] by (cases "find_empty (mqueue this ! (L + 1)) 0") auto
    from find_empty_0 [OF j] have jl: "j < length (mqueue this ! (L + 1))" by simp
    let ?q1 = "(mqueue this)[L + 1 := (mqueue this ! (L + 1))[j := Ptr p]]"
    let ?this' = "this\<lparr>metasched := st, mqueue := ?q1[L := (?q1 ! L)[mlfq_index (ps ! p) := Null]]\<rparr>"
    let ?ps' = "ps[p := (ps ! p)\<lparr>mlfq_level := int (L + 1), mlfq_index := j, mlfq_elapsed := 0\<rparr>]"
    have app: "mlfq_append (this\<lparr>metasched := st\<rparr>) ps p (L + 1)
        = (MLFQ_SUCCESS, this\<lparr>metasched := st, mqueue := ?q1\<rparr>, ?ps')"
      using j by (simp add: mlfq_append_def)
    have n1: "nat (int L + 1) = L + 1" by simp
    have r: "mlfq_update MAXTICKET MAXPASS SCALEPASS this ps p ctime = Inr (MLFQ_NEXT, ?this', ?ps')"
      using p lv a st app
      by (simp add: mlfq_update_def Let_def n1 del: of_nat_Suc of_nat_add)
    have q1: "mqueue ?this' ! (L + 1) ! j = Ptr p"
      using a jl by simp
    have q2: "mqueue ?this' ! L ! mlfq_index (ps ! p) = Null"
      using ix by simp
    have q3: "mlfq_level (?ps' ! p) = int L + 1 \<and> mlfq_index (?ps' ! p) = j
             \<and> mlfq_elapsed (?ps' ! p) = 0"
      using ix by simp
    from r j q1 q2 q3
    show "\<exists>this' ps' j.
             mlfq_update MAXTICKET MAXPASS SCALEPASS this ps p ctime = Inr (MLFQ_NEXT, this', ps')
             \<and> find_empty (mqueue this ! (L + 1)) 0 = Some j
             \<and> mqueue this' ! (L + 1) ! j = Ptr p
             \<and> mqueue this' ! L ! mlfq_index (ps ! p) = Null
             \<and> mlfq_level (ps' ! p) = int L + 1 \<and> mlfq_index (ps' ! p) = j
             \<and> mlfq_elapsed (ps' ! p) = 0"
      by blast
  }
  {
    assume b: "\<not> (L + 1 < NMLFQ \<and> mlfq_elapsed (ps ! p) \<ge> expire this ! L)"
    have "mlfq_update MAXTICKET MAXPASS SCALEPASS this ps p ctime
               = Inr (if ctime - mlfq_start (ps ! p) \<ge> mquantum this ! L then MLFQ_NEXT else MLFQ_KEEP,
                      this\<lparr>metasched := st\<rparr>, ps)"
      using p lv b st by (auto simp: mlfq_update_def Let_def not_le)
    then show "\<exists>this'.
             mlfq_update MAXTICKET MAXPASS SCALEPASS this ps p ctime
               = Inr (if ctime - mlfq_start (ps ! p) \<ge> mquantum this ! L then MLFQ_NEXT else MLFQ_KEEP,
                      this', ps)
             \<and> mqueue this' = mqueue this"
      by (intro exI [of _ "this\<lparr>metasched := st\<rparr>"]) simp
  }
qed


text \<open>When level \<open>L + 1\<close> has no empty entry, the move ends in the panic of the code.\<close>

lemma mlfq_update_full_level:
  assumes p: "state (ps ! p) \<noteq> ZOMBIE" "killed (ps ! p) = 0"
    and lv: "mlfq_level (ps ! p) = int L" "L + 1 < NMLFQ"
    and ex: "mlfq_elapsed (ps ! p) \<ge> expire this ! L"
    and tk: "ticket (metasched this) ! 0 \<noteq> 0"
    and full: "Null \<notin> set (mqueue this ! (L + 1))"
  shows "mlfq_update MAXTICKET MAXPASS SCALEPASS this ps p ctime
           = Inl (Panic ''mlfq: level elevation failed'')"
proof -
  from stride_update_mlfq [OF tk] obtain st where
    st: "stride_update MAXTICKET MAXPASS SCALEPASS (metasched this) ps MLFQ_PROC = Inr (MLFQ_NEXT, st)"
    by blast
  from full have fe: "find_empty (mqueue this ! (L + 1)) 0 = None"
    by (simp add: find_empty_None_iff)
  have app: "mlfq_append (this\<lparr>metasched := st\<rparr>) ps p (L + 1)
        = (MLFQ_FULL_QUEUE, this\<lparr>metasched := st\<rparr>, ps)"
    using fe by (simp add: mlfq_append_def)
  have n1: "nat (int L + 1) = L + 1" by simp
  show ?thesis
    using p lv ex st app
    by (simp add: mlfq_update_def Let_def n1 del: of_nat_Suc of_nat_add)
qed

text \<open>A level of \<open>n\<close> entries that holds distinct processes of an \<open>n\<close>-slot table, and
  not the process \<open>p\<close>, has an empty entry.\<close>

lemma level_has_room:
  assumes len: "length q = n" and p: "p < n" "Ptr p \<notin> set q"
    and rng: "\<forall>x \<in> set q. x = Null \<or> (\<exists>k < n. x = Ptr k)"
    and dist: "distinct (filter (\<lambda>x. x \<noteq> Null) q)"
  shows "Null \<in> set q"
proof (rule ccontr)
  assume no: "Null \<notin> set q"
  then have "filter (\<lambda>x. x \<noteq> Null) q = q" by (induction q) auto
  with dist have d: "distinct q" by simp
  have sub: "set q \<subseteq> Ptr ` ({0..<n} - {p})"
  proof
    fix x assume x: "x \<in> set q"
    with rng no obtain k where "k < n" "x = Ptr k" by auto
    moreover with x p have "k \<noteq> p" by auto
    ultimately show "x \<in> Ptr ` ({0..<n} - {p})" by auto
  qed
  have "card (set q) \<le> card (Ptr ` ({0..<n} - {p}))"
    by (rule card_mono [OF _ sub]) simp
  also have "\<dots> \<le> card ({0..<n} - {p})" by (rule card_image_le) simp
  also have "\<dots> = n - 1" using p by simp
  finally have "card (set q) \<le> n - 1" .
  moreover from d len have "card (set q) = n" by (simp add: distinct_card)
  ultimately show False using p by simp
qed

theorem mlfq_update_level_witness:
  "(\<exists>this' ps'. mlfq_update 100 1000 100 demo_mlfq mlfq_procs 0 25 = Inr (MLFQ_NEXT, this', ps')
       \<and> mqueue this' = [[Null, Ptr 1], [Ptr 0, Null], [Null, Null]]
       \<and> mlfq_level (ps' ! 0) = 1 \<and> mlfq_index (ps' ! 0) = 0 \<and> mlfq_elapsed (ps' ! 0) = 0)
   \<and> (\<exists>this'. mlfq_update 100 1000 100 demo_mlfq mlfq_procs 1 25 = Inr (MLFQ_NEXT, this', mlfq_procs))
   \<and> (\<exists>this'. mlfq_update 100 1000 100 demo_mlfq mlfq_procs 1 18 = Inr (MLFQ_KEEP, this', mlfq_procs))"
proof -
  have h0: "state (mlfq_procs ! 0) \<noteq> ZOMBIE" "killed (mlfq_procs ! 0) = 0"
    "mlfq_level (mlfq_procs ! 0) = int 0" "0 < NMLFQ" "0 < length mlfq_procs"
    "0 < length (mqueue demo_mlfq)"
    "mlfq_index (mlfq_procs ! 0) < length (mqueue demo_mlfq ! 0)"
    "ticket (metasched demo_mlfq) ! 0 \<noteq> 0"
    by (simp_all add: mlfq_procs_def zero_proc_def NMLFQ_def demo_mlfq_def stride_init_def)
  have h1: "state (mlfq_procs ! 1) \<noteq> ZOMBIE" "killed (mlfq_procs ! 1) = 0"
    "mlfq_level (mlfq_procs ! 1) = int 0" "1 < length mlfq_procs"
    "mlfq_index (mlfq_procs ! 1) < length (mqueue demo_mlfq ! 0)"
    by (simp_all add: mlfq_procs_def zero_proc_def NMLFQ_def demo_mlfq_def stride_init_def)
  have a: "0 + 1 < NMLFQ \<and> mlfq_elapsed (mlfq_procs ! 0) \<ge> expire demo_mlfq ! 0
            \<and> 0 + 1 < length (mqueue demo_mlfq) \<and> Null \<in> set (mqueue demo_mlfq ! (0 + 1))"
    by (simp add: mlfq_procs_def zero_proc_def NMLFQ_def demo_mlfq_def)
  have b: "\<not> (0 + 1 < NMLFQ \<and> mlfq_elapsed (mlfq_procs ! 1) \<ge> expire demo_mlfq ! 0)"
    by (simp add: mlfq_procs_def zero_proc_def NMLFQ_def demo_mlfq_def)
  from mlfq_update_level [OF h0(1-3) h0(4) h0(5-8), of 100 1000 100 25] a
  obtain this' ps' j where
    r: "mlfq_update 100 1000 100 demo_mlfq mlfq_procs 0 25 = Inr (MLFQ_NEXT, this', ps')"
    and j: "find_empty (mqueue demo_mlfq ! (0 + 1)) 0 = Some j"
    and rest: "mlfq_level (ps' ! 0) = int 0 + 1 \<and> mlfq_index (ps' ! 0) = j
             \<and> mlfq_elapsed (ps' ! 0) = 0"
    by blast
  from j have j0: "j = 0" by (simp add: demo_mlfq_def)
  have e: "mlfq_update 100 1000 100 demo_mlfq mlfq_procs 0 25
     = Inr (MLFQ_NEXT, demo_mlfq\<lparr>mqueue := [[Null, Ptr 1], [Ptr 0, Null], [Null, Null]],
                          metasched := (stride_init 100 2)\<lparr>pass := [1, - 1]\<rparr>\<rparr>,
            mlfq_procs[0 := (mlfq_procs ! 0)\<lparr>mlfq_level := 1, mlfq_index := 0, mlfq_elapsed := 0\<rparr>])"
    by (simp add: mlfq_update_def mlfq_procs_def zero_proc_def NMLFQ_def demo_mlfq_def
        stride_update_def stride_init_def mlfq_append_def Let_def)
  from r e have "mqueue this' = [[Null, Ptr 1], [Ptr 0, Null], [Null, Null]]" by auto
  with r rest j0 have c1: "\<exists>this' ps'. mlfq_update 100 1000 100 demo_mlfq mlfq_procs 0 25
       = Inr (MLFQ_NEXT, this', ps')
       \<and> mqueue this' = [[Null, Ptr 1], [Ptr 0, Null], [Null, Null]]
       \<and> mlfq_level (ps' ! 0) = 1 \<and> mlfq_index (ps' ! 0) = 0 \<and> mlfq_elapsed (ps' ! 0) = 0"
    by auto
  have q: "(25 :: 32 word) - mlfq_start (mlfq_procs ! 1) \<ge> mquantum demo_mlfq ! 0"
    "\<not> (18 :: 32 word) - mlfq_start (mlfq_procs ! 1) \<ge> mquantum demo_mlfq ! 0"
    by (simp_all add: mlfq_procs_def zero_proc_def demo_mlfq_def)
  from mlfq_update_level [OF h1(1-3) h0(4) h1(4) h0(6) h1(5) h0(8), of 100 1000 100 25] b q
  have c2: "\<exists>this'. mlfq_update 100 1000 100 demo_mlfq mlfq_procs 1 25
       = Inr (MLFQ_NEXT, this', mlfq_procs)"
    by auto
  from mlfq_update_level [OF h1(1-3) h0(4) h1(4) h0(6) h1(5) h0(8), of 100 1000 100 18] b q
  have c3: "\<exists>this'. mlfq_update 100 1000 100 demo_mlfq mlfq_procs 1 18
       = Inr (MLFQ_KEEP, this', mlfq_procs)"
    by auto
  from c1 c2 c3 show ?thesis by blast
qed


section \<open>Waking sleepers\<close>

lemma wakeup1_length: "length (wakeup1 ch ps) = length ps"
  by (simp add: wakeup1_def)

lemma wakeup1_nth:
  "i < length ps \<Longrightarrow>
     wakeup1 ch ps ! i =
       (if state (ps ! i) = RUNNABLE
        then (ps ! i)\<lparr>threads := map (wake_thread ch) (threads (ps ! i))\<rparr> else ps ! i)"
  by (simp add: wakeup1_def)

text \<open>
  Claim C8. \<^verbatim>\<open>wakeup(chan)\<close> sets to RUNNABLE exactly the threads that are SLEEPING, whose
  \<^verbatim>\<open>chan\<close> is the given one and whose process is RUNNABLE. Every other thread, every other
  field of a thread and of a process, and the rest of the kernel state are unchanged.
\<close>

theorem wakeup_effect:
  "length (ptable (wakeup ch s)) = length (ptable s)
   \<and> (wakeup ch s)\<lparr>ptable := ptable s\<rparr> = s
   \<and> (\<forall>i < length (ptable s).
        (ptable (wakeup ch s) ! i)\<lparr>threads := threads (ptable s ! i)\<rparr> = ptable s ! i
        \<and> length (threads (ptable (wakeup ch s) ! i)) = length (threads (ptable s ! i))
        \<and> (\<forall>j < length (threads (ptable s ! i)).
             threads (ptable (wakeup ch s) ! i) ! j =
               (if tstate (threads (ptable s ! i) ! j) = SLEEPING
                   \<and> chan (threads (ptable s ! i) ! j) = ch
                   \<and> state (ptable s ! i) = RUNNABLE
                then (threads (ptable s ! i) ! j)\<lparr>tstate := RUNNABLE\<rparr>
                else threads (ptable s ! i) ! j)))"
  by (simp add: wakeup_def wakeup1_length wakeup1_nth wake_thread_def)

theorem wakeup_effect_witness:
  "map (map tstate \<circ> threads) (ptable demo_kstate) = [[RUNNABLE, UNUSED], [SLEEPING, RUNNABLE]]
   \<and> map (map tstate \<circ> threads) (ptable (wakeup 9 demo_kstate))
       = [[RUNNABLE, UNUSED], [RUNNABLE, RUNNABLE]]
   \<and> map (map tstate \<circ> threads) (ptable (wakeup 8 demo_kstate))
       = [[RUNNABLE, UNUSED], [SLEEPING, RUNNABLE]]
   \<and> (wakeup 9 demo_kstate)\<lparr>ptable := ptable demo_kstate\<rparr> = demo_kstate"
  using wakeup_effect [of 9 demo_kstate]
  by (simp add: wakeup_def wakeup1_def wake_thread_def demo_kstate_def mlfq_procs_def
      zero_proc_def zero_thread_def)

section \<open>Joining a thread\<close>










section \<open>Failure while a process is created\<close>

text \<open>The first steps of a kernel with two process slots of two threads each.\<close>

lemma replicate_2: "replicate 2 x = [x, x]"
  by (simp add: eval_nat_numeral)

lemma pinit_two_slots: "pinit 100 2 2 =
  \<lparr> ptable = [zero_proc 2, zero_proc 2],
    sched = \<lparr> mquantum = [5, 10, 20], expire = [20, 40, 200],
              mqueue = [[Null, Null], [Null, Null], [Null, Null]], iterstate = [0, 0, 0],
              metasched = stride_init 100 2 \<rparr>,
    nextpid = 1, nexttid = 1 \<rparr>"
  by (simp add: pinit_def mlfq_init_def NMLFQ_def eval_nat_numeral)

lemma allocproc_no_memory: "allocproc 0 (pinit 100 2 2) =
  (Null, \<lparr> ptable = [(zero_proc 2)\<lparr>pid := 1, threads := [zero_thread\<lparr>tid := 1\<rparr>, zero_thread]\<rparr>, zero_proc 2],
    sched = \<lparr> mquantum = [5, 10, 20], expire = [20, 40, 200],
              mqueue = [[Ptr 0, Null], [Null, Null], [Null, Null]], iterstate = [0, 0, 0],
              metasched = stride_init 100 2 \<rparr>,
    nextpid = 2, nexttid = 2 \<rparr>)"
  unfolding pinit_two_slots
  by (simp add: allocproc_def mlfq_append_def zero_proc_def zero_thread_def Let_def replicate_2)

lemma allocproc_no_memory_again: "allocproc 0 \<lparr> ptable = [(zero_proc 2)\<lparr>pid := 1, threads := [zero_thread\<lparr>tid := 1\<rparr>, zero_thread]\<rparr>, zero_proc 2],
    sched = \<lparr> mquantum = [5, 10, 20], expire = [20, 40, 200],
              mqueue = [[Ptr 0, Null], [Null, Null], [Null, Null]], iterstate = [0, 0, 0],
              metasched = stride_init 100 2 \<rparr>,
    nextpid = 2, nexttid = 2 \<rparr> =
  (Null, \<lparr> ptable = [(zero_proc 2)\<lparr>pid := 2, mlfq_index := 1,
                  threads := [zero_thread\<lparr>tid := 2\<rparr>, zero_thread]\<rparr>, zero_proc 2],
    sched = \<lparr> mquantum = [5, 10, 20], expire = [20, 40, 200],
              mqueue = [[Ptr 0, Ptr 0], [Null, Null], [Null, Null]], iterstate = [0, 0, 0],
              metasched = stride_init 100 2 \<rparr>,
    nextpid = 3, nexttid = 3 \<rparr>)"
  by (simp add: allocproc_def mlfq_append_def zero_proc_def zero_thread_def Let_def replicate_2)

lemma allocproc_first: "allocproc 4096 (pinit 100 2 2) =
  (Ptr 0, \<lparr> ptable = [(zero_proc 2)\<lparr>state := EMBRYO, pid := 1,
                 threads := [zero_thread\<lparr>tstate := EMBRYO, tid := 1, kstack := 4096\<rparr>, zero_thread],
                 kstacks := [4096, 0]\<rparr>, zero_proc 2],
    sched = \<lparr> mquantum = [5, 10, 20], expire = [20, 40, 200],
              mqueue = [[Ptr 0, Null], [Null, Null], [Null, Null]], iterstate = [0, 0, 0],
              metasched = stride_init 100 2 \<rparr>,
    nextpid = 2, nexttid = 2 \<rparr>)"
  unfolding pinit_two_slots
  by (simp add: allocproc_def mlfq_append_def zero_proc_def zero_thread_def Let_def replicate_2)

lemma fork_no_memory: "fork 4096 0 0 \<lparr> ptable = [(zero_proc 2)\<lparr>state := EMBRYO, pid := 1,
                 threads := [zero_thread\<lparr>tstate := EMBRYO, tid := 1, kstack := 4096\<rparr>, zero_thread],
                 kstacks := [4096, 0]\<rparr>, zero_proc 2],
    sched = \<lparr> mquantum = [5, 10, 20], expire = [20, 40, 200],
              mqueue = [[Ptr 0, Null], [Null, Null], [Null, Null]], iterstate = [0, 0, 0],
              metasched = stride_init 100 2 \<rparr>,
    nextpid = 2, nexttid = 2 \<rparr> =
  (- 1, \<lparr> ptable = [(zero_proc 2)\<lparr>state := EMBRYO, pid := 1,
                 threads := [zero_thread\<lparr>tstate := EMBRYO, tid := 1, kstack := 4096\<rparr>, zero_thread],
                 kstacks := [4096, 0]\<rparr>,
                 (zero_proc 2)\<lparr>pid := 2, mlfq_index := 1,
                    threads := [zero_thread\<lparr>tid := 2\<rparr>, zero_thread]\<rparr>],
    sched = \<lparr> mquantum = [5, 10, 20], expire = [20, 40, 200],
              mqueue = [[Ptr 0, Ptr 1], [Null, Null], [Null, Null]], iterstate = [0, 0, 0],
              metasched = stride_init 100 2 \<rparr>,
    nextpid = 3, nexttid = 3 \<rparr>)"
  by (simp add: fork_def allocproc_def mlfq_append_def zero_proc_def zero_thread_def Let_def replicate_2)

text \<open>
  Claim C9 says that a failed allocation rolls the process and thread slot back to
  UNUSED and leaves no registration of the process in a scheduler structure. The code
  returns the failure code and resets the two states, but \<^verbatim>\<open>allocproc\<close> has called
  \<^verbatim>\<open>mlfq_append\<close> before \<^verbatim>\<open>kalloc\<close>, and neither failure path calls \<^verbatim>\<open>mlfq_delete\<close> (as
  \<^verbatim>\<open>wait\<close> does when it frees a slot). On a freshly initialised table of two slots:
  after a failed \<^verbatim>\<open>kalloc\<close> the entry of level 0 still points to slot 0, and a second
  failure registers the same slot twice; after a failed \<^verbatim>\<open>copyuvm\<close> in \<^verbatim>\<open>fork\<close> the child's
  slot 1 is UNUSED and still queued.
\<close>

theorem allocproc_failure_keeps_registration:
  "fst (allocproc 0 (pinit 100 2 2)) = Null
   \<and> state (ptable (snd (allocproc 0 (pinit 100 2 2))) ! 0) = UNUSED
   \<and> tstate (threads (ptable (snd (allocproc 0 (pinit 100 2 2))) ! 0) ! 0) = UNUSED
   \<and> mqueue (sched (pinit 100 2 2)) ! 0 = [Null, Null]
   \<and> mqueue (sched (snd (allocproc 0 (pinit 100 2 2)))) ! 0 = [Ptr 0, Null]
   \<and> mqueue (sched (snd (allocproc 0 (snd (allocproc 0 (pinit 100 2 2)))))) ! 0 = [Ptr 0, Ptr 0]
   \<and> fst (fork 4096 0 0 (snd (allocproc 4096 (pinit 100 2 2)))) = - 1
   \<and> state (ptable (snd (fork 4096 0 0 (snd (allocproc 4096 (pinit 100 2 2))))) ! 1) = UNUSED
   \<and> tstate (threads (ptable (snd (fork 4096 0 0 (snd (allocproc 4096 (pinit 100 2 2))))) ! 1) ! 0)
       = UNUSED
   \<and> mqueue (sched (snd (fork 4096 0 0 (snd (allocproc 4096 (pinit 100 2 2)))))) ! 0
       = [Ptr 0, Ptr 1]"
  unfolding allocproc_no_memory allocproc_first snd_conv fst_conv
    allocproc_no_memory_again fork_no_memory
  by (simp add: pinit_two_slots zero_proc_def zero_thread_def)

section \<open>Selection by the MLFQ\<close>




















end
